theory Spec2Isabelle
  imports Complex_Main
begin

section \<open>titles2bib: the fallback search module (fallback\_search.py)\<close>

text \<open>
  A shallow embedding of \<^verbatim>\<open>src/fallback_search.py\<close>. The module looks a paper title up
  in the arXiv API and, failing that, in Google Scholar (through the optional
  \<^verbatim>\<open>scholarly\<close> package), checks the title of the first hit against the query and
  renders the hit as a BibTeX record.

  Conventions of the model:
  \<^item> A Python \<^verbatim>\<open>str\<close> is a \<^typ>\<open>string\<close>; a \<^typ>\<open>char\<close> stands for the code point of
    the same number, so the model covers text whose code points lie below 256. The
    character classes of \<^verbatim>\<open>re\<close> and \<^verbatim>\<open>str\<close> are written out for exactly that range.
  \<^item> Every \<^verbatim>\<open>raise\<close> is a value \<open>Inl e\<close> of a sum type, every normal return \<open>Inr v\<close>.
  \<^item> The two services are parameters: a function from the request to what the library
    call yields (a response, a result record, or an exception).
  \<^item> Effects (requests, the import of \<^verbatim>\<open>scholarly\<close>, \<^verbatim>\<open>time.sleep\<close>, \<^verbatim>\<open>print\<close>) are
    returned as a list of events, in the order the code performs them.
\<close>

subsection \<open>Character classes and string primitives of Python\<close>

text \<open>\<^verbatim>\<open>str.isspace\<close>, which is also \<^verbatim>\<open>\s\<close> of \<^verbatim>\<open>re\<close> on \<^verbatim>\<open>str\<close> patterns: the code points
  9--13, 28--32, 133 and 160.\<close>

definition isspace :: "char \<Rightarrow> bool" where
  "isspace c = (let n = (of_char c :: nat) in
     (9 \<le> n \<and> n \<le> 13) \<or> (28 \<le> n \<and> n \<le> 32) \<or> n = 133 \<or> n = 160)"

text \<open>\<^verbatim>\<open>\d\<close>: below 256 the decimal digits are \<^verbatim>\<open>0\<close>--\<^verbatim>\<open>9\<close> only.\<close>

definition isdecimal :: "char \<Rightarrow> bool" where
  "isdecimal c = (let n = (of_char c :: nat) in 48 \<le> n \<and> n \<le> 57)"

text \<open>\<^verbatim>\<open>str.isalnum\<close>: the ASCII digits and letters, and the Latin-1 letters and numeric
  characters (170, 178, 179, 181, 185, 186, 188--190, 192--214, 216--246, 248--255).\<close>

definition isalnum :: "char \<Rightarrow> bool" where
  "isalnum c = (let n = (of_char c :: nat) in
     (48 \<le> n \<and> n \<le> 57) \<or> (65 \<le> n \<and> n \<le> 90) \<or> (97 \<le> n \<and> n \<le> 122) \<or>
     n = 170 \<or> n = 178 \<or> n = 179 \<or> n = 181 \<or> n = 185 \<or> n = 186 \<or>
     (188 \<le> n \<and> n \<le> 190) \<or> (192 \<le> n \<and> n \<le> 214) \<or>
     (216 \<le> n \<and> n \<le> 246) \<or> (248 \<le> n \<and> n \<le> 255))"

text \<open>\<^verbatim>\<open>\w\<close>: an alphanumeric character or the underscore.\<close>

definition word_char :: "char \<Rightarrow> bool" where
  "word_char c = (isalnum c \<or> c = CHR ''_'')"

text \<open>\<^verbatim>\<open>str.lower\<close>: \<^verbatim>\<open>A\<close>--\<^verbatim>\<open>Z\<close> and the Latin-1 capitals 192--214, 216--222 move up by 32;
  every other character below 256 stays.\<close>

definition lower_char :: "char \<Rightarrow> char" where
  "lower_char c = (let n = (of_char c :: nat) in
     if (65 \<le> n \<and> n \<le> 90) \<or> (192 \<le> n \<and> n \<le> 214) \<or> (216 \<le> n \<and> n \<le> 222)
     then char_of (n + 32) else c)"

definition lower :: "string \<Rightarrow> string" where
  "lower s = map lower_char s"

text \<open>The maximal non-empty runs of elements satisfying \<open>p\<close>, from left to right; \<open>cur\<close> is
  the run being read. This is what \<^verbatim>\<open>re.findall\<close> returns for a pattern \<^verbatim>\<open>C+\<close> over a
  character class (leftmost, greedy, non-overlapping matches), and what \<^verbatim>\<open>str.split()\<close>
  returns for the class of non-space characters.\<close>

fun runs :: "('a \<Rightarrow> bool) \<Rightarrow> 'a list \<Rightarrow> 'a list \<Rightarrow> 'a list list" where
  "runs p cur [] = (if cur = [] then [] else [cur])"
| "runs p cur (c # cs) =
     (if p c then runs p (cur @ [c]) cs
      else if cur = [] then runs p [] cs
      else cur # runs p [] cs)"

text \<open>\<^verbatim>\<open>re.findall(r'\w+', s)\<close>.\<close>

definition findall_w :: "string \<Rightarrow> string list" where
  "findall_w s = runs word_char [] s"

text \<open>\<^verbatim>\<open>s.split()\<close>, with no separator given.\<close>

definition split_ws :: "string \<Rightarrow> string list" where
  "split_ws s = runs (\<lambda>c. \<not> isspace c) [] s"

text \<open>\<^verbatim>\<open>s.split(sep)\<close> for a one-character separator: empty pieces are kept, and the result
  is never the empty list.\<close>

fun split_on :: "char \<Rightarrow> string \<Rightarrow> string list" where
  "split_on sep [] = [[]]"
| "split_on sep (c # cs) =
     (if c = sep then [] # split_on sep cs
      else (case split_on sep cs of
              [] \<Rightarrow> [[c]]
            | piece # pieces \<Rightarrow> (c # piece) # pieces))"

text \<open>\<^verbatim>\<open>sep.join(xs)\<close>.\<close>

fun join :: "string \<Rightarrow> string list \<Rightarrow> string" where
  "join sep [] = []"
| "join sep [x] = x"
| "join sep (x # y # ys) = x @ sep @ join sep (y # ys)"

text \<open>\<^verbatim>\<open>sub in s\<close> on strings.\<close>

fun contains :: "string \<Rightarrow> string \<Rightarrow> bool" where
  "contains sub [] = (sub = [])"
| "contains sub (c # cs) = (take (length sub) (c # cs) = sub \<or> contains sub cs)"

definition newline :: string where
  "newline = [CHR 0x0A]"

subsection \<open>The title similarity check\<close>

text \<open>
  \<^verbatim>\<open>
  def _title_similar(title1, title2, threshold=0.7):
      def normalize(s):
          return set(re.findall(r'\w+', s.lower()))
      words1 = normalize(title1)
      words2 = normalize(title2)
      if not words1 or not words2:
          return False
      intersection = words1 & words2
      union = words1 | words2
      return len(intersection) / len(union) >= threshold
  \<close>
  No caller passes a threshold, so it is the default. The quotient is a float in
  Python; the model compares the exact quotient with \<open>7/10\<close>. The two agree whenever the
  union has fewer than \<open>10^15\<close> words: the division is correctly rounded and the literal
  \<^verbatim>\<open>0.7\<close> is the double nearest to \<open>7/10\<close>, so a quotient of at least \<open>7/10\<close> rounds to at
  least that double, and a smaller quotient \<open>i/u\<close> lies at least \<open>1/(10u)\<close> below \<open>7/10\<close>,
  which is more than the rounding error of the double.
\<close>

definition normalize_str :: "string \<Rightarrow> string set" where
  "normalize_str s = set (findall_w (lower s))"

definition title_similar :: "string \<Rightarrow> string \<Rightarrow> bool" where
  "title_similar title1 title2 =
     (let words1 = normalize_str title1;
          words2 = normalize_str title2
      in if words1 = {} \<or> words2 = {} then False
         else let intersection = words1 \<inter> words2;
                  union = words1 \<union> words2
              in real (card intersection) / real (card union) \<ge> 7 / 10)"

text \<open>The similarity check in the words of the specification: the tokens are the
  lower-cased alphanumeric runs, compared by their Jaccard index.\<close>

definition spec_tokens :: "string \<Rightarrow> string set" where
  "spec_tokens s = set (runs isalnum [] (lower s))"

definition jaccard :: "'a set \<Rightarrow> 'a set \<Rightarrow> real" where
  "jaccard A B = real (card (A \<inter> B)) / real (card (A \<union> B))"

definition spec_title_similar :: "string \<Rightarrow> string \<Rightarrow> bool" where
  "spec_title_similar a b =
     (spec_tokens a \<noteq> {} \<and> spec_tokens b \<noteq> {} \<and>
      jaccard (spec_tokens a) (spec_tokens b) \<ge> 7 / 10)"

subsection \<open>Exceptions and effects\<close>

text \<open>The exceptions the module can meet. \<open>ImportError\<close> and its subclass
  \<open>ModuleNotFoundError\<close> are what an import raises when the package, or a module it needs,
  is missing. \<open>LibraryError\<close> stands for whatever else \<^verbatim>\<open>requests\<close> or \<^verbatim>\<open>scholarly\<close> raise
  from inside (timeouts, connection and HTTP errors, blocked requests, an error in the
  package's own module code), named by its class. All of them derive from \<^verbatim>\<open>Exception\<close>.\<close>

datatype exn =
    AttributeError
  | TypeError
  | IndexError
  | ParseError
  | ImportError
  | ModuleNotFoundError
  | LibraryError string

text \<open>\<^verbatim>\<open>except ImportError\<close> catches the class and its subclass.\<close>

definition is_import_error :: "exn \<Rightarrow> bool" where
  "is_import_error e = (e = ImportError \<or> e = ModuleNotFoundError)"

text \<open>The progress lines the module prints, by the place that prints them.\<close>

datatype message =
    TryingArxiv
  | ArxivFound
  | ArxivNotFound
  | ArxivError exn
  | TryingScholar
  | ScholarFound
  | ScholarNotFound
  | ScholarNotInstalled
  | ScholarError exn

text \<open>The effects: \<open>HttpGet q n\<close> is the \<^verbatim>\<open>requests.get\<close> of \<^verbatim>\<open>search_arxiv\<close> with search
  query \<open>q\<close> and \<^verbatim>\<open>max_results\<close> \<open>n\<close>; \<open>ImportScholarly\<close> is the import statement that
  opens \<^verbatim>\<open>search_google_scholar\<close>; \<open>SearchPubs t\<close> is \<^verbatim>\<open>scholarly.search_pubs(t)\<close>
  together with the \<^verbatim>\<open>next\<close> on its result; \<open>Sleep n\<close> is \<^verbatim>\<open>time.sleep(n)\<close>.\<close>

datatype event =
    Print message
  | HttpGet string nat
  | ImportScholarly
  | SearchPubs string
  | Sleep nat

subsection \<open>The arXiv search\<close>

text \<open>One \<^verbatim>\<open>atom:entry\<close> of the feed, as the code reads it. For a child element that
  \<^verbatim>\<open>entry.find\<close> looks up, the outer option says whether the element is there and the
  inner one is its \<^verbatim>\<open>.text\<close> (\<^verbatim>\<open>None\<close> for an element without text). \<open>author_names\<close> are
  the \<^verbatim>\<open>.text\<close> of the \<^verbatim>\<open>atom:author/atom:name\<close> elements, in document order.\<close>

record entry =
  title_elem :: "string option option"
  author_names :: "string option list"
  published_elem :: "string option option"
  id_elem :: "string option option"
  summary_elem :: "string option option"
  doi_elem :: "string option option"
  journal_ref_elem :: "string option option"

text \<open>The response of the service: its status code, and what \<^verbatim>\<open>ET.fromstring\<close> followed
  by \<^verbatim>\<open>root.findall('atom:entry', ns)\<close> makes of its text (a \<open>ParseError\<close>, or the list of
  entries).\<close>

record response =
  status_code :: int
  feed :: "exn + entry list"

text \<open>The service: from the search query and \<^verbatim>\<open>max_results\<close> to the outcome of
  \<^verbatim>\<open>requests.get\<close>.\<close>

type_synonym arxiv_service = "string \<Rightarrow> nat \<Rightarrow> exn + response"

text \<open>
  \<^verbatim>\<open>
  clean_title = re.sub(r'[^\w\s]', ' ', title)
  clean_title = ' '.join(clean_title.split())
  ... 'search_query': f'ti:"{clean_title}"'
  \<close>
\<close>

definition clean_title :: "string \<Rightarrow> string" where
  "clean_title title =
     join '' '' (split_ws (map (\<lambda>c. if word_char c \<or> isspace c then c else CHR '' '') title))"

definition search_query :: "string \<Rightarrow> string" where
  "search_query title = ''ti:'' @ [CHR 0x22] @ clean_title title @ [CHR 0x22]"

text \<open>\<^verbatim>\<open>re.sub(r'v\d+$', '', s)\<close>. Without \<^verbatim>\<open>re.MULTILINE\<close>, \<^verbatim>\<open>$\<close> matches at the end of the
  string and also just before a line feed that is the last character. \<open>strip_end\<close> removes
  a match that ends at the end of its argument: the trailing digits, when there is at
  least one and a \<^verbatim>\<open>v\<close> stands before them. A string that ends in a line feed can only
  have a match before that line feed.\<close>

definition strip_end :: "string \<Rightarrow> string" where
  "strip_end s =
     (let digits = takeWhile isdecimal (rev s);
          front = dropWhile isdecimal (rev s)
      in case front of
           [] \<Rightarrow> s
         | c # cs \<Rightarrow> if digits \<noteq> [] \<and> c = CHR ''v'' then rev cs else s)"

definition strip_version :: "string \<Rightarrow> string" where
  "strip_version s =
     (if s \<noteq> [] \<and> last s = CHR 0x0A then strip_end (butlast s) @ newline
      else strip_end s)"

text \<open>\<^verbatim>\<open>a.split()[-1]\<close>: the last word of a name; an \<open>IndexError\<close> when the name has no word.\<close>

definition last_word :: "string \<Rightarrow> exn + string" where
  "last_word a = (case split_ws a of [] \<Rightarrow> Inl IndexError | w # ws \<Rightarrow> Inr (last (w # ws)))"

text \<open>
  \<^verbatim>\<open>
  def _format_arxiv_bibtex(arxiv_id, title, authors, year, doi=None, journal_ref=None):
      first_author_lastname = authors[0].split()[-1] if authors else 'Unknown'
      cite_key = f"arxiv:{first_author_lastname}{year}"
      author_str = ' and\n               '.join(authors)
      bibtex_lines = [
          f"@article{{{cite_key},",
          f"  author    = {{{author_str}}},",
          f"  title     = {{{{{title}}}}},",
          f"  journal   = {{arXiv preprint arXiv:{arxiv_id}}},",
          f"  year      = {{{year}}}"
      ]
      bibtex_lines.append("}")
      return '\n'.join(bibtex_lines) + '\n'
  \<close>
  The caller passes the \<^verbatim>\<open>.text\<close> of the author elements, which may be \<^verbatim>\<open>None\<close>:
  \<^verbatim>\<open>None.split()\<close> is an \<open>AttributeError\<close>, and \<^verbatim>\<open>join\<close> over a list with a \<^verbatim>\<open>None\<close> is a
  \<open>TypeError\<close>.
\<close>

definition author_separator :: string where
  "author_separator = '' and'' @ newline @ ''               ''"

text \<open>\<^verbatim>\<open>authors[0].split()[-1] if authors else 'Unknown'\<close>, the same expression in both
  searches.\<close>

definition first_author_lastname :: "string option list \<Rightarrow> exn + string" where
  "first_author_lastname authors =
     (case authors of
        [] \<Rightarrow> Inr ''Unknown''
      | None # _ \<Rightarrow> Inl AttributeError
      | Some a # _ \<Rightarrow> last_word a)"

definition format_arxiv_bibtex ::
  "string \<Rightarrow> string \<Rightarrow> string option list \<Rightarrow> string \<Rightarrow> string option \<Rightarrow> string option
     \<Rightarrow> exn + string" where
  "format_arxiv_bibtex arxiv_id title authors year doi journal_ref =
     (case first_author_lastname authors of
        Inl e \<Rightarrow> Inl e
      | Inr lastname \<Rightarrow>
          let cite_key = ''arxiv:'' @ lastname @ year in
          if list_ex (\<lambda>a. a = None) authors then Inl TypeError
          else
            let author_str = join author_separator (map the authors);
                bibtex_lines =
                  [''@article{'' @ cite_key @ '','',
                   ''  author    = {'' @ author_str @ ''},'',
                   ''  title     = {{'' @ title @ ''}},'',
                   ''  journal   = {arXiv preprint arXiv:'' @ arxiv_id @ ''},'',
                   ''  year      = {'' @ year @ ''}'']
            in Inr (join newline (bibtex_lines @ [''}'']) @ newline))"

text \<open>Lines 49--82 of \<^verbatim>\<open>search_arxiv\<close>: from the first entry to the record. The values
  of \<^verbatim>\<open>year\<close>, \<^verbatim>\<open>arxiv_id\<close>, \<^verbatim>\<open>doi\<close> and \<^verbatim>\<open>journal_ref\<close> are \<open>entry_year\<close>,
  \<open>entry_arxiv_id\<close>, \<open>entry_doi\<close> and \<open>entry_journal_ref\<close>; \<^verbatim>\<open>published.text[:4]\<close> on a
  \<^verbatim>\<open>None\<close> text is a \<open>TypeError\<close>, \<^verbatim>\<open>.text.split\<close> on it an \<open>AttributeError\<close>.
  \<^verbatim>\<open>
  entry_title = entry.find('atom:title', ns)
  if entry_title is None:
      return None
  entry_title = ' '.join(entry_title.text.split())
  if not _title_similar(title, entry_title):
      return None
  authors = entry.findall('atom:author/atom:name', ns)
  author_list = [a.text for a in authors]
  published = entry.find('atom:published', ns)
  year = published.text[:4] if published is not None else ''
  arxiv_id_elem = entry.find('atom:id', ns)
  arxiv_id = arxiv_id_elem.text.split('/')[-1] if arxiv_id_elem is not None else ''
  arxiv_id = re.sub(r'v\d+$', '', arxiv_id)
  summary = entry.find('atom:summary', ns)
  doi_elem = entry.find('arxiv:doi', ns)
  doi = doi_elem.text if doi_elem is not None else None
  journal_ref_elem = entry.find('arxiv:journal_ref', ns)
  journal_ref = journal_ref_elem.text if journal_ref_elem is not None else None
  bibtex = _format_arxiv_bibtex(arxiv_id, entry_title, author_list, year, doi, journal_ref)
  return bibtex
  \<close>
\<close>

definition entry_year :: "entry \<Rightarrow> exn + string" where
  "entry_year entry =
     (case published_elem entry of
        None \<Rightarrow> Inr ''''
      | Some None \<Rightarrow> Inl TypeError
      | Some (Some t) \<Rightarrow> Inr (take 4 t))"

definition entry_arxiv_id :: "entry \<Rightarrow> exn + string" where
  "entry_arxiv_id entry =
     (case id_elem entry of
        None \<Rightarrow> Inr (strip_version '''')
      | Some None \<Rightarrow> Inl AttributeError
      | Some (Some t) \<Rightarrow> Inr (strip_version (last (split_on CHR ''/'' t))))"

definition entry_doi :: "entry \<Rightarrow> string option" where
  "entry_doi entry = (case doi_elem entry of None \<Rightarrow> None | Some t \<Rightarrow> t)"

definition entry_journal_ref :: "entry \<Rightarrow> string option" where
  "entry_journal_ref entry = (case journal_ref_elem entry of None \<Rightarrow> None | Some t \<Rightarrow> t)"

definition arxiv_entry_bibtex :: "string \<Rightarrow> entry \<Rightarrow> exn + string option" where
  "arxiv_entry_bibtex title entry =
     (case title_elem entry of
        None \<Rightarrow> Inr None
      | Some None \<Rightarrow> Inl AttributeError
      | Some (Some text) \<Rightarrow>
          let entry_title = join '' '' (split_ws text) in
          if \<not> title_similar title entry_title then Inr None
          else
            let author_list = author_names entry in
            (case entry_year entry of
               Inl e \<Rightarrow> Inl e
             | Inr year \<Rightarrow>
                 (case entry_arxiv_id entry of
                    Inl e \<Rightarrow> Inl e
                  | Inr arxiv_id \<Rightarrow>
                      let doi = entry_doi entry;
                          journal_ref = entry_journal_ref entry
                      in (case format_arxiv_bibtex arxiv_id entry_title author_list year
                                 doi journal_ref of
                            Inl e \<Rightarrow> Inl e
                          | Inr bibtex \<Rightarrow> Inr (Some bibtex)))))"

text \<open>The body of the \<^verbatim>\<open>try\<close> of \<^verbatim>\<open>search_arxiv\<close>.
  \<^verbatim>\<open>
  response = requests.get(base_url, params=params, timeout=30)
  if response.status_code != 200:
      return None
  root = ET.fromstring(response.text)
  entries = root.findall('atom:entry', ns)
  if not entries:
      return None
  entry = entries[0]
  ...
  \<close>
\<close>

definition search_arxiv_try :: "arxiv_service \<Rightarrow> string \<Rightarrow> nat \<Rightarrow> exn + string option" where
  "search_arxiv_try service title max_results =
     (case service (search_query title) max_results of
        Inl e \<Rightarrow> Inl e
      | Inr response \<Rightarrow>
          if status_code response \<noteq> 200 then Inr None
          else (case feed response of
                  Inl e \<Rightarrow> Inl e
                | Inr entries \<Rightarrow>
                    (case entries of
                       [] \<Rightarrow> Inr None
                     | entry # _ \<Rightarrow> arxiv_entry_bibtex title entry)))"

text \<open>\<^verbatim>\<open>search_arxiv\<close>: the body under \<^verbatim>\<open>try\<close>, and
  \<^verbatim>\<open>except Exception as e: print(...); return None\<close>. The request is always made: nothing
  before it can raise on a \<^verbatim>\<open>str\<close>.\<close>

definition search_arxiv ::
  "arxiv_service \<Rightarrow> string \<Rightarrow> nat \<Rightarrow> (exn + string option) \<times> event list" where
  "search_arxiv service title max_results =
     (case search_arxiv_try service title max_results of
        Inl e \<Rightarrow> (Inr None, [HttpGet (search_query title) max_results, Print (ArxivError e)])
      | Inr bibtex \<Rightarrow> (Inr bibtex, [HttpGet (search_query title) max_results]))"

subsection \<open>The Google Scholar search\<close>

text \<open>The \<^verbatim>\<open>author\<close> value of a result: one string, or a list of strings.\<close>

datatype author_field = AuthorStr string | AuthorList "string list"

text \<open>The \<^verbatim>\<open>bib\<close> dictionary of a result, by the keys the code reads; \<open>None\<close> is a missing
  key.\<close>

record bib =
  bib_title :: "string option"
  bib_author :: "author_field option"
  bib_pub_year :: "string option"
  bib_venue :: "string option"
  bib_journal :: "string option"
  bib_booktitle :: "string option"

text \<open>A result of \<^verbatim>\<open>scholarly.search_pubs\<close>, by the keys the code reads.\<close>

record publication =
  pub_bib :: "bib option"
  pub_url :: "string option"

text \<open>The \<^verbatim>\<open>scholarly\<close> object: from the title to the outcome of \<^verbatim>\<open>search_pubs(title)\<close>,
  which raises or returns an iterator; the iterator is given by the outcome of
  \<^verbatim>\<open>next(search_query, None)\<close> on it: it raises, is exhausted (\<open>None\<close>), or yields a
  result.\<close>

type_synonym scholarly = "string \<Rightarrow> exn + (exn + publication option)"

text \<open>\<^verbatim>\<open>d.get(key, default)\<close>.\<close>

definition get_default :: "'a option \<Rightarrow> 'a \<Rightarrow> 'a" where
  "get_default v d = (case v of None \<Rightarrow> d | Some x \<Rightarrow> x)"

text \<open>The empty dictionary \<^verbatim>\<open>{}\<close> that \<^verbatim>\<open>result.get('bib', {})\<close> falls back to.\<close>

definition empty_bib :: bib where
  "empty_bib = \<lparr>bib_title = None, bib_author = None, bib_pub_year = None,
                bib_venue = None, bib_journal = None, bib_booktitle = None\<rparr>"

text \<open>Lines 153--202 of \<^verbatim>\<open>search_google_scholar\<close>: from the first result to the record.
  \<^verbatim>\<open>
  result_title = result.get('bib', {}).get('title', '')
  if not _title_similar(title, result_title):
      return None
  bib = result.get('bib', {})
  authors = bib.get('author', ['Unknown'])
  if isinstance(authors, str):
      authors = [authors]
  year = bib.get('pub_year', '')
  venue = bib.get('venue', bib.get('journal', bib.get('booktitle', '')))
  first_author_lastname = authors[0].split()[-1] if authors else 'Unknown'
  cite_key = f"scholar:{first_author_lastname}{year}"
  pub_type = 'article'
  if 'conference' in venue.lower() or 'proceedings' in venue.lower() or 'symposium' in venue.lower():
      pub_type = 'inproceedings'
  author_str = ' and\n               '.join(authors)
  bibtex_lines = [
      f"@" f"{pub_type}{{{cite_key},",
      f"  author    = {{{author_str}}},",
      f"  title     = {{{result_title}}},",
  ]
  if pub_type == 'inproceedings':
      bibtex_lines.append(f"  booktitle = {{{venue}}},")
  else:
      bibtex_lines.append(f"  journal   = {{{venue}}},")
  if year:
      bibtex_lines.append(f"  year      = {{{year}}},")
  pub_url = result.get('pub_url', '')
  if pub_url:
      bibtex_lines.append(f"  url       = {{{pub_url}}},")
  bibtex_lines.append("}")
  return '\n'.join(bibtex_lines) + '\n'
  \<close>
  (The first element of \<^verbatim>\<open>bibtex_lines\<close> is a single f-string in the source; it is written
  in two pieces here, split behind the at sign.)
\<close>

definition scholar_authors :: "bib \<Rightarrow> string list" where
  "scholar_authors b =
     (case get_default (bib_author b) (AuthorList [''Unknown'']) of
        AuthorStr a \<Rightarrow> [a]
      | AuthorList as \<Rightarrow> as)"

definition scholar_venue :: "bib \<Rightarrow> string" where
  "scholar_venue b =
     get_default (bib_venue b) (get_default (bib_journal b) (get_default (bib_booktitle b) ''''))"

definition scholar_pub_type :: "string \<Rightarrow> string" where
  "scholar_pub_type venue =
     (if contains ''conference'' (lower venue) \<or> contains ''proceedings'' (lower venue)
         \<or> contains ''symposium'' (lower venue)
      then ''inproceedings'' else ''article'')"

definition scholar_bibtex_lines :: "publication \<Rightarrow> exn + string list" where
  "scholar_bibtex_lines result =
     (let result_title = get_default (bib_title (get_default (pub_bib result) empty_bib)) '''';
          b = get_default (pub_bib result) empty_bib;
          authors = scholar_authors b;
          year = get_default (bib_pub_year b) '''';
          venue = scholar_venue b
      in case first_author_lastname (map Some authors) of
           Inl e \<Rightarrow> Inl e
         | Inr lastname \<Rightarrow>
             let cite_key = ''scholar:'' @ lastname @ year;
                 pub_type = scholar_pub_type venue;
                 author_str = join author_separator authors;
                 url = get_default (pub_url result) ''''
             in Inr ([''@'' @ pub_type @ ''{'' @ cite_key @ '','',
                      ''  author    = {'' @ author_str @ ''},'',
                      ''  title     = {'' @ result_title @ ''},'']
                     @ [if pub_type = ''inproceedings''
                        then ''  booktitle = {'' @ venue @ ''},''
                        else ''  journal   = {'' @ venue @ ''},'']
                     @ (if year \<noteq> [] then [''  year      = {'' @ year @ ''},''] else [])
                     @ (if url \<noteq> [] then [''  url       = {'' @ url @ ''},''] else [])
                     @ [''}'']))"

definition scholar_result_bibtex :: "string \<Rightarrow> publication \<Rightarrow> exn + string option" where
  "scholar_result_bibtex title result =
     (let result_title = get_default (bib_title (get_default (pub_bib result) empty_bib)) ''''
      in if \<not> title_similar title result_title then Inr None
         else (case scholar_bibtex_lines result of
                 Inl e \<Rightarrow> Inl e
               | Inr bibtex_lines \<Rightarrow> Inr (Some (join newline bibtex_lines @ newline))))"

text \<open>The body of the second \<^verbatim>\<open>try\<close> of \<^verbatim>\<open>search_google_scholar\<close>.
  \<^verbatim>\<open>
  search_query = scholarly.search_pubs(title)
  result = next(search_query, None)
  if result is None:
      return None
  ...
  \<close>
\<close>

definition search_google_scholar_try :: "scholarly \<Rightarrow> string \<Rightarrow> exn + string option" where
  "search_google_scholar_try lib title =
     (case lib title of
        Inl e \<Rightarrow> Inl e
      | Inr results \<Rightarrow>
          (case results of
             Inl e \<Rightarrow> Inl e
           | Inr None \<Rightarrow> Inr None
           | Inr (Some result) \<Rightarrow> scholar_result_bibtex title result))"

text \<open>\<^verbatim>\<open>search_google_scholar\<close>. Its second parameter \<^verbatim>\<open>max_results\<close> is never read and is
  left out. The parameter \<open>package\<close> is the outcome of the import statement: the \<^verbatim>\<open>scholarly\<close>
  object (\<open>Inr lib\<close>), or the exception the import raises (\<open>Inl e\<close>). The first \<^verbatim>\<open>try\<close>
  guards the import alone and catches \<^verbatim>\<open>ImportError\<close> only, so any other exception of the
  import leaves the function; the second \<^verbatim>\<open>try\<close> catches every exception of the body.
  \<^verbatim>\<open>
  try:
      from scholarly import scholarly
  except ImportError:
      print(...)
      return None
  try:
      ...
  except Exception as e:
      print(...)
      return None
  \<close>
\<close>

definition search_google_scholar ::
  "exn + scholarly \<Rightarrow> string \<Rightarrow> (exn + string option) \<times> event list" where
  "search_google_scholar package title =
     (case package of
        Inl e \<Rightarrow>
          if is_import_error e then (Inr None, [ImportScholarly, Print ScholarNotInstalled])
          else (Inl e, [ImportScholarly])
      | Inr lib \<Rightarrow>
          (case search_google_scholar_try lib title of
             Inl e \<Rightarrow> (Inr None, [ImportScholarly, SearchPubs title, Print (ScholarError e)])
           | Inr bibtex \<Rightarrow> (Inr bibtex, [ImportScholarly, SearchPubs title])))"

subsection \<open>The orchestrator\<close>

text \<open>The world the module runs in: the arXiv service, and what the import of the
  \<^verbatim>\<open>scholarly\<close> package yields.\<close>

record env =
  arxiv :: arxiv_service
  scholarly_package :: "exn + scholarly"

text \<open>\<^verbatim>\<open>if bibtex:\<close> on a value that is \<^verbatim>\<open>None\<close> or a string.\<close>

definition truthy :: "string option \<Rightarrow> bool" where
  "truthy bibtex = (case bibtex of None \<Rightarrow> False | Some s \<Rightarrow> s \<noteq> [])"

text \<open>
  \<^verbatim>\<open>
  def fallback_search(title, use_arxiv=True, use_scholar=True):
      bibtex = None
      if use_arxiv:
          print("  [try arxiv]...")
          bibtex = search_arxiv(title)
          if bibtex:
              print("  [arxiv] found")
              return bibtex
          else:
              print("  [arxiv] not found")
      if use_scholar:
          print("  [try Google Scholar]...")
          time.sleep(1)
          bibtex = search_google_scholar(title)
          if bibtex:
              print("  [Google Scholar] found")
              return bibtex
          else:
              print("  [Google Scholar] not found")
      return None
  \<close>
  The first component of \<open>arxiv_block\<close> is \<open>Some\<close> when the function is left inside the
  first \<^verbatim>\<open>if\<close> (by its \<^verbatim>\<open>return\<close>, or by an exception of the call), and \<open>None\<close> when control
  goes on to the second \<^verbatim>\<open>if\<close>.
\<close>

definition fallback_search ::
  "env \<Rightarrow> string \<Rightarrow> bool \<Rightarrow> bool \<Rightarrow> (exn + string option) \<times> event list" where
  "fallback_search world title use_arxiv use_scholar =
     (let arxiv_block =
            (if use_arxiv then
               (case search_arxiv (arxiv world) title 1 of
                  (Inl e, evs) \<Rightarrow> (Some (Inl e), [Print TryingArxiv] @ evs)
                | (Inr bibtex, evs) \<Rightarrow>
                    if truthy bibtex
                    then (Some (Inr bibtex), [Print TryingArxiv] @ evs @ [Print ArxivFound])
                    else (None, [Print TryingArxiv] @ evs @ [Print ArxivNotFound]))
             else (None, []))
      in case arxiv_block of
           (Some outcome, evs) \<Rightarrow> (outcome, evs)
         | (None, evs) \<Rightarrow>
             if use_scholar then
               (case search_google_scholar (scholarly_package world) title of
                  (Inl e, evs2) \<Rightarrow> (Inl e, evs @ [Print TryingScholar, Sleep 1] @ evs2)
                | (Inr bibtex, evs2) \<Rightarrow>
                    if truthy bibtex
                    then (Inr bibtex,
                          evs @ [Print TryingScholar, Sleep 1] @ evs2 @ [Print ScholarFound])
                    else (Inr None,
                          evs @ [Print TryingScholar, Sleep 1] @ evs2 @ [Print ScholarNotFound]))
             else (Inr None, evs))"

text \<open>The events of the scholarly search and of the pause before it.\<close>

fun scholar_event :: "event \<Rightarrow> bool" where
  "scholar_event ImportScholarly = True"
| "scholar_event (SearchPubs t) = True"
| "scholar_event (Sleep n) = True"
| "scholar_event (Print TryingScholar) = True"
| "scholar_event (Print ScholarFound) = True"
| "scholar_event (Print ScholarNotFound) = True"
| "scholar_event (Print ScholarNotInstalled) = True"
| "scholar_event (Print (ScholarError e)) = True"
| "scholar_event ev = False"

text \<open>The events that reach a service over the network.\<close>

fun network_event :: "event \<Rightarrow> bool" where
  "network_event (HttpGet q n) = True"
| "network_event (SearchPubs t) = True"
| "network_event ev = False"

subsection \<open>Notions of the specification\<close>

text \<open>\<^verbatim>\<open>s.startswith(p)\<close>.\<close>

definition starts_with :: "string \<Rightarrow> string \<Rightarrow> bool" where
  "starts_with p s = (take (length p) s = p)"

text \<open>A record carries the citation key \<open>key\<close>: it opens with \<^verbatim>\<open>@article{\<close> or
  \<^verbatim>\<open>@inproceedings{\<close>, then the key, then the comma and the line feed that end the first
  line.\<close>

definition has_key :: "string \<Rightarrow> string \<Rightarrow> bool" where
  "has_key key record =
     (starts_with (''@article{'' @ key @ '','' @ newline) record \<or>
      starts_with (''@inproceedings{'' @ key @ '','' @ newline) record)"

text \<open>A string ends in a version suffix: a \<^verbatim>\<open>v\<close> followed by one or more digits, up to the
  end.\<close>

definition ends_in_version :: "string \<Rightarrow> bool" where
  "ends_in_version s = (\<exists>base ds. s = base @ ''v'' @ ds \<and> ds \<noteq> [] \<and> list_all isdecimal ds)"

text \<open>The venue names a conference: it contains one of the three words, compared in lower
  case.\<close>

definition conference_venue :: "string \<Rightarrow> bool" where
  "conference_venue venue =
     (contains ''conference'' (lower venue) \<or> contains ''proceedings'' (lower venue) \<or>
      contains ''symposium'' (lower venue))"

text \<open>The citation key as the specification words it, \<^verbatim>\<open><servicetag>:<AuthorSurname><Year>\<close>
  with the surname (the last word) of the first author; there is none without a first
  author. \<open>spec_key_claim\<close> says that a record carries that key.\<close>

definition spec_cite_key :: "string \<Rightarrow> string list \<Rightarrow> string \<Rightarrow> string option" where
  "spec_cite_key tag authors year =
     (case authors of
        [] \<Rightarrow> None
      | a # _ \<Rightarrow> (case split_ws a of
                    [] \<Rightarrow> None
                  | w # ws \<Rightarrow> Some (tag @ '':'' @ last (w # ws) @ year)))"

definition spec_key_claim :: "string \<Rightarrow> string list \<Rightarrow> string \<Rightarrow> string \<Rightarrow> bool" where
  "spec_key_claim tag authors year record =
     (case spec_cite_key tag authors year of None \<Rightarrow> False | Some key \<Rightarrow> has_key key record)"

text \<open>The surname the code puts into the key: the last word of the first author, and the
  placeholder \<^verbatim>\<open>Unknown\<close> for an empty author list.\<close>

definition key_surname :: "string list \<Rightarrow> string" where
  "key_surname authors = (case authors of [] \<Rightarrow> ''Unknown'' | a # _ \<Rightarrow> last (split_ws a))"

subsection \<open>Test doubles\<close>

text \<open>A service that answers every request with status 200 and the given entries; one
  that answers with status 503 and a body that is no feed; one where the request raises;
  one that answers with status 200 and a body that is no feed.\<close>

definition stub_arxiv :: "entry list \<Rightarrow> arxiv_service" where
  "stub_arxiv entries query max_results = Inr \<lparr>status_code = 200, feed = Inr entries\<rparr>"

definition unavailable_service :: arxiv_service where
  "unavailable_service query max_results = Inr \<lparr>status_code = 503, feed = Inl ParseError\<rparr>"



text \<open>The entry of the end-to-end scenario: the title differs from the query in case
  only, and the identifier carries the version \<^verbatim>\<open>v5\<close>.\<close>

definition attention_entry :: entry where
  "attention_entry =
     \<lparr>title_elem = Some (Some ''Attention is All you Need''),
      author_names = [Some ''Ashish Vaswani'', Some ''Noam Shazeer''],
      published_elem = Some (Some ''2017-06-12T17:57:34Z''),
      id_elem = Some (Some ''http://arxiv.org/abs/1706.03762v5''),
      summary_elem = Some (Some ''The dominant sequence transduction models''),
      doi_elem = Some (Some ''10.5555/3295222.3295349''),
      journal_ref_elem = Some (Some ''NIPS 2017'')\<rparr>"

definition attention_record :: string where
  "attention_record =
     ''@article{arxiv:Vaswani2017,'' @ newline @
     ''  author    = {Ashish Vaswani and'' @ newline @
     ''               Noam Shazeer},'' @ newline @
     ''  title     = {{Attention is All you Need}},'' @ newline @
     ''  journal   = {arXiv preprint arXiv:1706.03762},'' @ newline @
     ''  year      = {2017}'' @ newline @
     ''}'' @ newline"

definition attention_world :: env where
  "attention_world = \<lparr>arxiv = stub_arxiv [attention_entry], scholarly_package = Inl ModuleNotFoundError\<rparr>"

text \<open>The same entry without author elements, and the record it yields.\<close>

definition anonymous_entry :: entry where
  "anonymous_entry = attention_entry\<lparr>author_names := []\<rparr>"

definition anonymous_record :: string where
  "anonymous_record =
     ''@article{arxiv:Unknown2017,'' @ newline @
     ''  author    = {},'' @ newline @
     ''  title     = {{Attention is All you Need}},'' @ newline @
     ''  journal   = {arXiv preprint arXiv:1706.03762},'' @ newline @
     ''  year      = {2017}'' @ newline @
     ''}'' @ newline"

text \<open>The same entry with a line feed after the identifier URL, as in
  \<^verbatim>\<open><id>http://arxiv.org/abs/1706.03762v5\n</id>\<close>, and the record it yields.\<close>

definition newline_entry :: entry where
  "newline_entry =
     attention_entry\<lparr>id_elem := Some (Some (''http://arxiv.org/abs/1706.03762v5'' @ newline))\<rparr>"

definition newline_record :: string where
  "newline_record =
     ''@article{arxiv:Vaswani2017,'' @ newline @
     ''  author    = {Ashish Vaswani and'' @ newline @
     ''               Noam Shazeer},'' @ newline @
     ''  title     = {{Attention is All you Need}},'' @ newline @
     ''  journal   = {arXiv preprint arXiv:1706.03762'' @ newline @ ''},'' @ newline @
     ''  year      = {2017}'' @ newline @
     ''}'' @ newline"

text \<open>The same entry with an old-style identifier that has no version, and the record it
  yields.\<close>

definition unversioned_entry :: entry where
  "unversioned_entry = attention_entry\<lparr>id_elem := Some (Some ''http://arxiv.org/abs/cs/0112017'')\<rparr>"

definition unversioned_record :: string where
  "unversioned_record =
     ''@article{arxiv:Vaswani2017,'' @ newline @
     ''  author    = {Ashish Vaswani and'' @ newline @
     ''               Noam Shazeer},'' @ newline @
     ''  title     = {{Attention is All you Need}},'' @ newline @
     ''  journal   = {arXiv preprint arXiv:0112017},'' @ newline @
     ''  year      = {2017}'' @ newline @
     ''}'' @ newline"




text \<open>A \<^verbatim>\<open>scholarly\<close> that yields the given result for every title, a result published in
  conference proceedings, and one published in a journal, with their records.\<close>

definition stub_scholarly :: "publication \<Rightarrow> scholarly" where
  "stub_scholarly result title = Inr (Inr (Some result))"

definition icml_result :: publication where
  "icml_result =
     \<lparr>pub_bib = Some \<lparr>bib_title = Some ''Deep Learning of Things'',
                      bib_author = Some (AuthorList [''Ada Lovelace'', ''Alan Turing'']),
                      bib_pub_year = Some ''2019'',
                      bib_venue = Some ''Proceedings of ICML'',
                      bib_journal = None, bib_booktitle = None\<rparr>,
      pub_url = Some ''https://example.org/p''\<rparr>"

definition icml_record :: string where
  "icml_record =
     ''@inproceedings{scholar:Lovelace2019,'' @ newline @
     ''  author    = {Ada Lovelace and'' @ newline @
     ''               Alan Turing},'' @ newline @
     ''  title     = {Deep Learning of Things},'' @ newline @
     ''  booktitle = {Proceedings of ICML},'' @ newline @
     ''  year      = {2019},'' @ newline @
     ''  url       = {https://example.org/p},'' @ newline @
     ''}'' @ newline"



section \<open>Properties\<close>

subsection \<open>Tokens and strings\<close>

text \<open>\<open>runs\<close> is the leftmost, greedy scan: it closes the run being read with the longest
  prefix of matching characters, and goes on behind it. For \<^verbatim>\<open>\w+\<close> this is the unfolding of
  \<^verbatim>\<open>re.findall\<close>: skip to the first word character, take the longest match, repeat.\<close>

lemma runs_skip: "runs p [] (dropWhile (\<lambda>c. \<not> p c) s) = runs p [] s"
  by (induction s) simp_all

lemma runs_greedy:
  "runs p cur s =
     (if cur @ takeWhile p s = [] then [] else [cur @ takeWhile p s])
     @ runs p [] (dropWhile p s)"
proof (induction s arbitrary: cur)
  case Nil
  then show ?case by simp
next
  case (Cons c cs)
  show ?case
  proof (cases "p c")
    case True
    then show ?thesis using Cons.IH[of "cur @ [c]"] by simp
  next
    case False
    then show ?thesis by simp
  qed
qed

lemma findall_w_unfold:
  "findall_w s =
     (case dropWhile (\<lambda>c. \<not> word_char c) s of
        [] \<Rightarrow> []
      | c # cs \<Rightarrow> takeWhile word_char (c # cs) # findall_w (dropWhile word_char (c # cs)))"
proof (cases "dropWhile (\<lambda>c. \<not> word_char c) s")
  case Nil
  have "findall_w s = runs word_char [] (dropWhile (\<lambda>c. \<not> word_char c) s)"
    by (simp add: findall_w_def runs_skip)
  then have "findall_w s = []" unfolding Nil by simp
  then show ?thesis unfolding Nil by simp
next
  case (Cons c cs)
  then have pc: "word_char c" using hd_dropWhile[of "\<lambda>c. \<not> word_char c" s] by auto
  have "findall_w s = runs word_char [] (c # cs)"
    using Cons by (simp add: findall_w_def runs_skip[of word_char s, symmetric] del: runs.simps)
  also have "\<dots> = takeWhile word_char (c # cs) # runs word_char [] (dropWhile word_char (c # cs))"
    using pc by (subst runs_greedy) simp
  finally show ?thesis using Cons by (simp add: findall_w_def)
qed

lemma runs_cong:
  "(\<And>c. c \<in> set s \<Longrightarrow> p c = q c) \<Longrightarrow> runs p cur s = runs q cur s"
  by (induction s arbitrary: cur) simp_all

lemma lower_char_underscore: "lower_char c = CHR ''_'' \<longleftrightarrow> c = CHR ''_''"
proof
  assume "c = CHR ''_''"
  then show "lower_char c = CHR ''_''" by (simp add: lower_char_def)
next
  assume l: "lower_char c = CHR ''_''"
  show "c = CHR ''_''"
  proof (rule ccontr)
    assume n: "c \<noteq> CHR ''_''"
    let ?n = "of_char c :: nat"
    from l n have up: "(65 \<le> ?n \<and> ?n \<le> 90) \<or> (192 \<le> ?n \<and> ?n \<le> 214) \<or> (216 \<le> ?n \<and> ?n \<le> 222)"
      and eq: "char_of (?n + 32) = CHR ''_''"
      by (auto simp add: lower_char_def Let_def split: if_splits)
    from eq have "(of_char (char_of (?n + 32) :: char) :: nat) = of_char CHR ''_''" by simp
    then have "(?n + 32) mod 256 = 95" by simp
    with up show False by auto
  qed
qed

lemma split_on_nonempty: "split_on sep s \<noteq> []"
  by (induction s) (auto split: list.splits)

lemma split_on_no_sep: "sep \<notin> set t \<Longrightarrow> split_on sep t = [t]"
  by (induction t) auto

lemma split_on_append:
  "sep \<notin> set t \<Longrightarrow>
     split_on sep (u @ t) = butlast (split_on sep u) @ [last (split_on sep u) @ t]"
proof (induction u)
  case Nil
  then show ?case by (simp add: split_on_no_sep)
next
  case (Cons c u)
  obtain piece pieces where X: "split_on sep u = piece # pieces"
    using split_on_nonempty[of sep u] by (cases "split_on sep u") auto
  show ?case
  proof (cases "c = sep")
    case True
    then show ?thesis using Cons X by simp
  next
    case False
    then show ?thesis using Cons X by (cases pieces) auto
  qed
qed

lemma last_split_on_append:
  "sep \<notin> set t \<Longrightarrow> last (split_on sep (u @ t)) = last (split_on sep u) @ t"
  by (simp add: split_on_append)

lemma starts_with_append: "starts_with p (p @ s)"
  by (simp add: starts_with_def)

lemma join_newline_nonempty: "join newline ls @ newline \<noteq> []"
  by (simp add: newline_def)

subsection \<open>The version suffix\<close>

lemma isdecimal_v: "\<not> isdecimal CHR ''v''"
  by (simp add: isdecimal_def)

lemma isdecimal_not_slash: "isdecimal c \<Longrightarrow> c \<noteq> CHR ''/''"
  by (auto simp add: isdecimal_def)

lemma no_slash_in_version:
  "list_all isdecimal ds \<Longrightarrow> CHR ''/'' \<notin> set (CHR ''v'' # ds)"
  by (auto simp add: list_all_iff dest: isdecimal_not_slash)

lemma strip_end_version:
  assumes "ds \<noteq> []" and "list_all isdecimal ds"
  shows "strip_end (base @ CHR ''v'' # ds) = base"
proof -
  have all: "\<And>c. c \<in> set (rev ds) \<Longrightarrow> isdecimal c"
    using assms(2) by (simp add: list_all_iff)
  have r: "rev (base @ CHR ''v'' # ds) = rev ds @ CHR ''v'' # rev base" by simp
  have t: "takeWhile isdecimal (rev ds @ CHR ''v'' # rev base) = rev ds"
    using takeWhile_append2[of "rev ds" isdecimal "CHR ''v'' # rev base"] all isdecimal_v by simp
  have d: "dropWhile isdecimal (rev ds @ CHR ''v'' # rev base) = CHR ''v'' # rev base"
    using dropWhile_append2[of "rev ds" isdecimal "CHR ''v'' # rev base"] all isdecimal_v by simp
  show ?thesis
    unfolding strip_end_def r t d using assms(1) by simp
qed

lemma strip_end_changes:
  assumes "strip_end s \<noteq> s"
  shows "ends_in_version s"
proof -
  let ?ds = "takeWhile isdecimal (rev s)"
  let ?fr = "dropWhile isdecimal (rev s)"
  from assms obtain cs where fr: "?fr = CHR ''v'' # cs" and ne: "?ds \<noteq> []"
    by (auto simp add: strip_end_def Let_def split: list.splits if_splits)
  have "rev s = ?ds @ ?fr" by simp
  then have "rev s = ?ds @ CHR ''v'' # cs" using fr by simp
  then have "rev (rev s) = rev (?ds @ CHR ''v'' # cs)" by (rule arg_cong)
  then have s: "s = rev cs @ ''v'' @ rev ?ds" by simp
  have "list_all isdecimal (rev ?ds)"
    by (auto simp add: list_all_iff dest: set_takeWhileD)
  with s ne show ?thesis unfolding ends_in_version_def by blast
qed

lemma ends_in_version_last:
  "ends_in_version s \<Longrightarrow> s \<noteq> [] \<and> isdecimal (last s)"
  by (auto simp add: ends_in_version_def list_all_iff)

lemma ends_in_version_strip_end: "ends_in_version s \<longleftrightarrow> strip_end s \<noteq> s"
proof
  assume "ends_in_version s"
  then obtain base ds where s: "s = base @ CHR ''v'' # ds" and "ds \<noteq> []" and "list_all isdecimal ds"
    by (auto simp add: ends_in_version_def)
  then have "strip_end s = base" by (simp add: strip_end_version)
  then show "strip_end s \<noteq> s" using s by simp
next
  assume "strip_end s \<noteq> s"
  then show "ends_in_version s" by (rule strip_end_changes)
qed

lemma not_ends_in_version_newline: "\<not> ends_in_version (s @ newline)"
proof
  assume "ends_in_version (s @ newline)"
  from ends_in_version_last[OF this] show False by (simp add: newline_def isdecimal_def)
qed

lemma strip_version_plain:
  assumes "ds \<noteq> []" and "list_all isdecimal ds"
  shows "strip_version (base @ ''v'' @ ds) = base"
proof -
  have "isdecimal (last (base @ ''v'' @ ds))" using assms by (simp add: list_all_iff)
  moreover have "\<not> isdecimal (CHR 0x0A)" by (simp add: isdecimal_def)
  ultimately have "last (base @ ''v'' @ ds) \<noteq> CHR 0x0A" by metis
  then show ?thesis using assms by (simp add: strip_version_def strip_end_version)
qed

lemma strip_version_newline:
  assumes "ds \<noteq> []" and "list_all isdecimal ds"
  shows "strip_version (base @ ''v'' @ ds @ newline) = base @ newline"
proof -
  have "butlast (base @ ''v'' @ ds @ newline) = base @ ''v'' @ ds"
    by (simp add: newline_def butlast_append)
  moreover have "last (base @ ''v'' @ ds @ newline) = CHR 0x0A" by (simp add: newline_def)
  ultimately show ?thesis using assms
    by (simp add: strip_version_def strip_end_version newline_def)
qed

lemma strip_version_unchanged:
  assumes "\<not> ends_in_version s"
      and "\<not> (\<exists>t. s = t @ newline \<and> ends_in_version t)"
  shows "strip_version s = s"
proof (cases "s \<noteq> [] \<and> last s = CHR 0x0A")
  case True
  then have s: "s = butlast s @ newline"
    using append_butlast_last_id[of s] by (simp add: newline_def)
  then have "\<not> ends_in_version (butlast s)" using assms(2) by metis
  then have "strip_end (butlast s) = butlast s" using strip_end_changes by blast
  then show ?thesis using True s by (simp add: strip_version_def)
next
  case False
  then show ?thesis using assms(1) strip_end_changes by (auto simp add: strip_version_def)
qed

lemma entry_id_version:
  assumes "ds \<noteq> []" and "list_all isdecimal ds"
  shows "strip_version (last (split_on CHR ''/'' (u @ CHR ''v'' # ds))) = last (split_on CHR ''/'' u)"
  using last_split_on_append[OF no_slash_in_version[OF assms(2)], of u]
        strip_version_plain[OF assms, of "last (split_on CHR ''/'' u)"]
  by simp

lemma entry_id_version_newline:
  assumes "ds \<noteq> []" and "list_all isdecimal ds"
  shows "strip_version (last (split_on CHR ''/'' (u @ CHR ''v'' # ds @ newline)))
           = last (split_on CHR ''/'' u) @ newline"
proof -
  have "CHR ''/'' \<notin> set (CHR ''v'' # ds @ newline)"
    using no_slash_in_version[OF assms(2)] by (simp add: newline_def)
  from last_split_on_append[OF this, of u]
  show ?thesis using strip_version_newline[OF assms, of "last (split_on CHR ''/'' u)"] by simp
qed

subsection \<open>What a successful search has gone through\<close>

lemma format_arxiv_bibtex_Inr:
  assumes "format_arxiv_bibtex arxiv_id title authors year doi journal_ref = Inr b"
  shows "\<exists>lastname. first_author_lastname authors = Inr lastname \<and>
           \<not> list_ex (\<lambda>a. a = None) authors \<and>
           b = join newline
                 [''@article{'' @ (''arxiv:'' @ lastname @ year) @ '','',
                  ''  author    = {'' @ join author_separator (map the authors) @ ''},'',
                  ''  title     = {{'' @ title @ ''}},'',
                  ''  journal   = {arXiv preprint arXiv:'' @ arxiv_id @ ''},'',
                  ''  year      = {'' @ year @ ''}'',
                  ''}''] @ newline"
  using assms
  by (auto simp add: format_arxiv_bibtex_def Let_def split: sum.splits if_splits)

lemma arxiv_entry_bibtex_Some:
  assumes "arxiv_entry_bibtex title entry = Inr (Some b)"
  shows "\<exists>text year arxiv_id.
           title_elem entry = Some (Some text) \<and>
           title_similar title (join '' '' (split_ws text)) \<and>
           entry_year entry = Inr year \<and>
           entry_arxiv_id entry = Inr arxiv_id \<and>
           format_arxiv_bibtex arxiv_id (join '' '' (split_ws text)) (author_names entry) year
             (entry_doi entry) (entry_journal_ref entry) = Inr b"
  using assms
  by (auto simp add: arxiv_entry_bibtex_def Let_def split: option.splits sum.splits if_splits)

lemma search_arxiv_try_Some:
  assumes "search_arxiv_try service title n = Inr (Some b)"
  shows "\<exists>resp entry rest. service (search_query title) n = Inr resp \<and> status_code resp = 200 \<and>
           feed resp = Inr (entry # rest) \<and> arxiv_entry_bibtex title entry = Inr (Some b)"
  using assms
  by (auto simp add: search_arxiv_try_def split: sum.splits if_splits list.splits)

lemma search_arxiv_fst:
  "fst (search_arxiv service title n) =
     Inr (case search_arxiv_try service title n of Inl e \<Rightarrow> None | Inr r \<Rightarrow> r)"
  by (simp add: search_arxiv_def split: sum.splits)

lemma search_arxiv_snd_Some:
  "fst (search_arxiv service title n) = Inr (Some b) \<Longrightarrow>
     search_arxiv service title n = (Inr (Some b), [HttpGet (search_query title) n])"
  by (auto simp add: search_arxiv_def split: sum.splits)

lemma search_arxiv_Some:
  assumes "fst (search_arxiv service title n) = Inr (Some b)"
  shows "search_arxiv_try service title n = Inr (Some b)"
  using assms by (auto simp add: search_arxiv_def split: sum.splits)

lemma search_arxiv_entry:
  assumes "service (search_query title) n = Inr resp" and "feed resp = Inr (entry # rest)"
      and "fst (search_arxiv service title n) = Inr (Some b)"
  shows "arxiv_entry_bibtex title entry = Inr (Some b)"
  using search_arxiv_try_Some[OF search_arxiv_Some[OF assms(3)]] assms(1,2) by auto

lemma search_arxiv_truthy:
  assumes "fst (search_arxiv service title n) = Inr (Some b)"
  shows "truthy (Some b)"
proof -
  from search_arxiv_try_Some[OF search_arxiv_Some[OF assms]]
  obtain entry where "arxiv_entry_bibtex title entry = Inr (Some b)" by blast
  from arxiv_entry_bibtex_Some[OF this] obtain i t a y d j where
    "format_arxiv_bibtex i t a y d j = Inr b" by blast
  from format_arxiv_bibtex_Inr[OF this] have "b \<noteq> []"
    using join_newline_nonempty by metis
  then show ?thesis by (simp add: truthy_def)
qed

lemma scholar_pub_type_conference:
  "scholar_pub_type venue = (if conference_venue venue then ''inproceedings'' else ''article'')"
  by (simp add: scholar_pub_type_def conference_venue_def)

lemma scholar_bibtex_lines_Inr:
  assumes "scholar_bibtex_lines result = Inr ls"
  shows "\<exists>lastname more.
           first_author_lastname (map Some (scholar_authors (get_default (pub_bib result) empty_bib)))
             = Inr lastname \<and>
           ls = [''@'' @ scholar_pub_type (scholar_venue (get_default (pub_bib result) empty_bib))
                   @ ''{'' @ (''scholar:'' @ lastname
                   @ get_default (bib_pub_year (get_default (pub_bib result) empty_bib)) '''') @ '','',
                 ''  author    = {''
                   @ join author_separator (scholar_authors (get_default (pub_bib result) empty_bib))
                   @ ''},'',
                 ''  title     = {''
                   @ get_default (bib_title (get_default (pub_bib result) empty_bib)) '''' @ ''},'',
                 (if scholar_pub_type (scholar_venue (get_default (pub_bib result) empty_bib))
                       = ''inproceedings''
                  then ''  booktitle = {'' else ''  journal   = {'')
                   @ scholar_venue (get_default (pub_bib result) empty_bib) @ ''},'']
                @ more"
  using assms
  by (auto simp add: scholar_bibtex_lines_def Let_def split: sum.splits)

lemma scholar_result_bibtex_Some:
  assumes "scholar_result_bibtex title result = Inr (Some b)"
  shows "\<exists>ls. scholar_bibtex_lines result = Inr ls \<and> b = join newline ls @ newline \<and>
           title_similar title (get_default (bib_title (get_default (pub_bib result) empty_bib)) '''')"
  using assms
  by (auto simp add: scholar_result_bibtex_def Let_def split: sum.splits if_splits)

lemma search_google_scholar_Some:
  assumes "fst (search_google_scholar (Inr lib) title) = Inr (Some b)"
      and "lib title = Inr (Inr (Some result))"
  shows "scholar_result_bibtex title result = Inr (Some b)"
  using assms
  by (auto simp add: search_google_scholar_def search_google_scholar_try_def split: sum.splits)

lemma first_author_lastname_surname:
  assumes "first_author_lastname authors = Inr lastname"
      and "\<not> list_ex (\<lambda>a. a = None) authors"
  shows "lastname = key_surname (map the authors)"
  using assms
  by (auto simp add: first_author_lastname_def key_surname_def last_word_def
           split: list.splits option.splits)

lemma first_author_lastname_Some:
  assumes "first_author_lastname (map Some authors) = Inr lastname"
  shows "lastname = key_surname authors"
  using assms
  by (auto simp add: first_author_lastname_def key_surname_def last_word_def
           split: list.splits option.splits)

lemma has_key_article: "has_key key (''@article{'' @ key @ '','' @ newline @ rest)"
  using starts_with_append[of "''@article{'' @ key @ '','' @ newline" rest]
  by (simp add: has_key_def)

lemma has_key_inproceedings: "has_key key (''@inproceedings{'' @ key @ '','' @ newline @ rest)"
  using starts_with_append[of "''@inproceedings{'' @ key @ '','' @ newline" rest]
  by (simp add: has_key_def)

subsection \<open>Test runs\<close>

text \<open>The end-to-end scenario, and the two scholarly results, evaluated.\<close>

lemma attention_search:
  "search_arxiv (stub_arxiv [attention_entry]) ''Attention Is All You Need'' 1
     = (Inr (Some attention_record), [HttpGet (search_query ''Attention Is All You Need'') 1])"
  by code_simp

lemma icml_search: "search_google_scholar (Inr (stub_scholarly icml_result)) ''deep learning of things'' = (Inr (Some icml_record), [ImportScholarly, SearchPubs ''deep learning of things''])"
  by code_simp


subsection \<open>The similarity check\<close>

lemma finite_normalize_str: "finite (normalize_str a)"
  by (simp add: normalize_str_def)

lemma title_similar_jaccard:
  "title_similar a b \<longleftrightarrow>
     normalize_str a \<noteq> {} \<and> normalize_str b \<noteq> {} \<and>
     jaccard (normalize_str a) (normalize_str b) \<ge> 7 / 10"
  by (simp add: title_similar_def Let_def jaccard_def)

lemma jaccard_self: "finite A \<Longrightarrow> A \<noteq> {} \<Longrightarrow> jaccard A A = 1"
  by (simp add: jaccard_def)

lemma normalize_str_spec_tokens:
  assumes "CHR ''_'' \<notin> set s"
  shows "normalize_str s = spec_tokens s"
proof -
  have "CHR ''_'' \<notin> set (lower s)"
  proof
    assume "CHR ''_'' \<in> set (lower s)"
    then obtain c where "c \<in> set s" and "lower_char c = CHR ''_''"
      by (auto simp add: lower_def)
    then show False using assms by (simp add: lower_char_underscore)
  qed
  then have "runs word_char [] (lower s) = runs isalnum [] (lower s)"
    by (intro runs_cong) (auto simp add: word_char_def)
  then show ?thesis by (simp add: normalize_str_def spec_tokens_def findall_w_def)
qed

text \<open>On titles without an underscore the check is the one the specification words.\<close>

lemma title_similar_spec_agree:
  assumes "CHR ''_'' \<notin> set a" and "CHR ''_'' \<notin> set b"
  shows "title_similar a b = spec_title_similar a b"
  using assms
  by (simp add: title_similar_jaccard spec_title_similar_def normalize_str_spec_tokens)

text \<open>C2, as the code has it. The tokens of a title are the maximal runs of word characters
  of its lower-cased text, where a word character is an alphanumeric character or the
  underscore. The check holds exactly when both token sets are non-empty and their Jaccard
  index is at least \<open>7/10\<close>; it fails whenever a token set is empty, and it holds for equal
  non-empty token sets.\<close>

theorem title_similar_jaccard_word_runs:
  "(title_similar a b \<longleftrightarrow>
      normalize_str a \<noteq> {} \<and> normalize_str b \<noteq> {} \<and>
      jaccard (normalize_str a) (normalize_str b) \<ge> 7 / 10) \<and>
   (normalize_str a = {} \<or> normalize_str b = {} \<longrightarrow> \<not> title_similar a b) \<and>
   (normalize_str a = normalize_str b \<and> normalize_str a \<noteq> {} \<longrightarrow> title_similar a b)"
proof -
  have 1: "title_similar a b \<longleftrightarrow>
      normalize_str a \<noteq> {} \<and> normalize_str b \<noteq> {} \<and>
      jaccard (normalize_str a) (normalize_str b) \<ge> 7 / 10"
    by (rule title_similar_jaccard)
  have 3: "title_similar a b" if "normalize_str a = normalize_str b \<and> normalize_str a \<noteq> {}"
  proof -
    from that have eq: "normalize_str b = normalize_str a" and ne: "normalize_str a \<noteq> {}"
      by blast+
    have "jaccard (normalize_str a) (normalize_str a) = 1"
      using finite_normalize_str ne by (rule jaccard_self)
    then show ?thesis unfolding title_similar_jaccard eq using ne by simp
  qed
  show ?thesis using 1 3 by blast
qed

text \<open>C2 as worded, with tokens that are alphanumeric runs, fails on an underscore:
  \<^verbatim>\<open>a_b\<close> is one token for the code and two for the wording, so the code rejects the pair
  \<^verbatim>\<open>a_b\<close>, \<^verbatim>\<open>a b\<close> that the wording accepts with index 1.\<close>

theorem title_similar_underscore_counterexample:
  "\<not> title_similar ''a_b'' ''a b'' \<and> spec_title_similar ''a_b'' ''a b''"
  by code_simp

theorem title_similar_jaccard_word_runs_witness:
  "normalize_str ''?!'' = {} \<and> \<not> title_similar ''?!'' ''Attention'' \<and>
   normalize_str ''need you, all you need'' = normalize_str ''All You Need'' \<and>
   normalize_str ''All You Need'' = {''all'', ''you'', ''need''} \<and>
   title_similar ''need you, all you need'' ''All You Need'' \<and>
   jaccard (normalize_str ''a b c d'') (normalize_str ''a b c e'') = 3 / 5 \<and>
   \<not> title_similar ''a b c d'' ''a b c e''"
proof -
  have e: "normalize_str ''?!'' = {}" by code_simp
  have s: "normalize_str ''need you, all you need'' = normalize_str ''All You Need''" by code_simp
  have v: "normalize_str ''All You Need'' = {''all'', ''you'', ''need''}" by code_simp
  have n: "normalize_str ''need you, all you need'' \<noteq> {}" unfolding s v by simp
  have j: "jaccard (normalize_str ''a b c d'') (normalize_str ''a b c e'') = 3 / 5" by code_simp
  have 1: "\<not> title_similar ''?!'' ''Attention''"
    using title_similar_jaccard_word_runs[of "''?!''" "''Attention''"] e by blast
  have 2: "title_similar ''need you, all you need'' ''All You Need''"
    using title_similar_jaccard_word_runs[of "''need you, all you need''" "''All You Need''"] s n by blast
  have 3: "\<not> title_similar ''a b c d'' ''a b c e''"
    using title_similar_jaccard_word_runs[of "''a b c d''" "''a b c e''"] j by simp
  show ?thesis using e s v j 1 2 3 by blast
qed

text \<open>C3: the similarity check is symmetric.\<close>

theorem title_similar_symmetric: "title_similar a b = title_similar b a"
  by (simp add: title_similar_def Let_def Int_commute Un_commute disj_commute)

theorem title_similar_symmetric_witness:
  "title_similar ''All You Need'' ''all you need!'' = title_similar ''all you need!'' ''All You Need''"
  using title_similar_symmetric[of "''All You Need''" "''all you need!''"] by simp

subsection \<open>The arXiv search\<close>

text \<open>C4, as the code has it. In the record of a successful search the journal line
  carries the last path segment of the identifier URL after \<^verbatim>\<open>re.sub(r'v\d+$', '', _)\<close>. A
  URL that ends in \<^verbatim>\<open>v\<close> and digits loses that suffix. A URL that ends in \<^verbatim>\<open>v\<close>, digits
  and one final line feed loses the suffix and keeps the line feed. An identifier that
  ends in no such suffix, neither at its end nor before a final line feed, is emitted
  unchanged.\<close>

theorem arxiv_id_version_stripped:
  assumes "service (search_query title) n = Inr resp" and "feed resp = Inr (entry # rest)"
      and "fst (search_arxiv service title n) = Inr (Some b)"
      and "id_elem entry = Some (Some url)"
  shows "\<exists>arxiv_id l1 l2 l3 l5.
           b = join newline
                 [l1, l2, l3, ''  journal   = {arXiv preprint arXiv:'' @ arxiv_id @ ''},'', l5, ''}'']
               @ newline \<and>
           (url = u @ ''v'' @ ds \<and> ds \<noteq> [] \<and> list_all isdecimal ds \<longrightarrow>
              arxiv_id = last (split_on CHR ''/'' u)) \<and>
           (url = u @ ''v'' @ ds @ newline \<and> ds \<noteq> [] \<and> list_all isdecimal ds \<longrightarrow>
              arxiv_id = last (split_on CHR ''/'' u) @ newline) \<and>
           (\<not> ends_in_version (last (split_on CHR ''/'' url)) \<and>
            \<not> (\<exists>t. last (split_on CHR ''/'' url) = t @ newline \<and> ends_in_version t) \<longrightarrow>
              arxiv_id = last (split_on CHR ''/'' url))"
proof -
  let ?id = "strip_version (last (split_on CHR ''/'' url))"
  have "arxiv_entry_bibtex title entry = Inr (Some b)"
    using assms(1-3) by (rule search_arxiv_entry)
  from arxiv_entry_bibtex_Some[OF this] obtain ttl year arxiv_id where
    i: "entry_arxiv_id entry = Inr arxiv_id" and
    f: "format_arxiv_bibtex arxiv_id (join '' '' (split_ws ttl)) (author_names entry) year
             (entry_doi entry) (entry_journal_ref entry) = Inr b" by blast
  have id: "arxiv_id = ?id" using i assms(4) by (simp add: entry_arxiv_id_def)
  from format_arxiv_bibtex_Inr[OF f] obtain l1 l2 l3 l5 where
    b: "b = join newline
              [l1, l2, l3, ''  journal   = {arXiv preprint arXiv:'' @ ?id @ ''},'', l5, ''}'']
            @ newline"
    unfolding id by blast
  have 1: "url = u @ ''v'' @ ds \<and> ds \<noteq> [] \<and> list_all isdecimal ds \<longrightarrow>
             ?id = last (split_on CHR ''/'' u)"
    using entry_id_version[of ds u] by simp
  have 2: "url = u @ ''v'' @ ds @ newline \<and> ds \<noteq> [] \<and> list_all isdecimal ds \<longrightarrow>
             ?id = last (split_on CHR ''/'' u) @ newline"
    using entry_id_version_newline[of ds u] by simp
  have 3: "\<not> ends_in_version (last (split_on CHR ''/'' url)) \<and>
           \<not> (\<exists>t. last (split_on CHR ''/'' url) = t @ newline \<and> ends_in_version t) \<longrightarrow>
             ?id = last (split_on CHR ''/'' url)"
    using strip_version_unchanged[of "last (split_on CHR ''/'' url)"] by blast
  show ?thesis using b 1 2 3 by blast
qed

text \<open>C4 as worded lets every identifier without a trailing \<^verbatim>\<open>v\<close>-and-digits suffix through
  unchanged. The identifier \<^verbatim>\<open>1706.03762v5\<close> followed by a line feed ends in a line feed, not
  in such a suffix, and the code still removes \<^verbatim>\<open>v5\<close> from it.\<close>

theorem arxiv_id_newline_counterexample:
  "\<not> ends_in_version (''1706.03762v5'' @ newline) \<and>
   strip_version (''1706.03762v5'' @ newline) = ''1706.03762'' @ newline \<and>
   strip_version (''1706.03762v5'' @ newline) \<noteq> ''1706.03762v5'' @ newline \<and>
   fst (search_arxiv (stub_arxiv [newline_entry]) ''Attention Is All You Need'' 1)
     = Inr (Some newline_record)"
proof -
  have 1: "strip_version (''1706.03762v5'' @ newline) = ''1706.03762'' @ newline" by code_simp
  have 2: "strip_version (''1706.03762v5'' @ newline) \<noteq> ''1706.03762v5'' @ newline" by code_simp
  have 3: "fst (search_arxiv (stub_arxiv [newline_entry]) ''Attention Is All You Need'' 1)
     = Inr (Some newline_record)" by code_simp
  show ?thesis using not_ends_in_version_newline[of "''1706.03762v5''"] 1 2 3 by blast
qed

theorem arxiv_id_version_stripped_witness:
  "fst (search_arxiv (stub_arxiv [attention_entry]) ''Attention Is All You Need'' 1)
     = Inr (Some attention_record) \<and>
   id_elem attention_entry = Some (Some (''http://arxiv.org/abs/1706.03762'' @ ''v'' @ ''5'')) \<and>
   (\<exists>l1 l2 l3 l5.
      attention_record =
        join newline [l1, l2, l3, ''  journal   = {arXiv preprint arXiv:'' @ ''1706.03762'' @ ''},'',
                      l5, ''}''] @ newline) \<and>
   fst (search_arxiv (stub_arxiv [unversioned_entry]) ''Attention Is All You Need'' 1)
     = Inr (Some unversioned_record) \<and>
   id_elem unversioned_entry = Some (Some ''http://arxiv.org/abs/cs/0112017'') \<and>
   \<not> ends_in_version ''0112017'' \<and>
   (\<exists>l1 l2 l3 l5.
      unversioned_record =
        join newline [l1, l2, l3, ''  journal   = {arXiv preprint arXiv:'' @ ''0112017'' @ ''},'',
                      l5, ''}''] @ newline)"
proof -
  have a1: "stub_arxiv [attention_entry] (search_query ''Attention Is All You Need'') 1
              = Inr \<lparr>status_code = 200, feed = Inr [attention_entry]\<rparr>"
    by (simp add: stub_arxiv_def)
  have a2: "feed \<lparr>status_code = 200, feed = Inr [attention_entry]\<rparr> = Inr (attention_entry # [])"
    by simp
  have a3: "fst (search_arxiv (stub_arxiv [attention_entry]) ''Attention Is All You Need'' 1)
              = Inr (Some attention_record)"
    unfolding attention_search by simp
  have a4: "id_elem attention_entry = Some (Some (''http://arxiv.org/abs/1706.03762'' @ ''v'' @ ''5''))"
    by code_simp
  have d: "''5'' \<noteq> [] \<and> list_all isdecimal ''5''" by code_simp
  have l: "last (split_on CHR ''/'' ''http://arxiv.org/abs/1706.03762'') = ''1706.03762''"
    by code_simp
  from arxiv_id_version_stripped[OF a1 a2 a3 a4, of "''http://arxiv.org/abs/1706.03762''" "''5''"] d
  have 1: "\<exists>l1 l2 l3 l5.
      attention_record =
        join newline [l1, l2, l3, ''  journal   = {arXiv preprint arXiv:'' @ ''1706.03762'' @ ''},'',
                      l5, ''}''] @ newline"
    unfolding l by blast
  have u1: "stub_arxiv [unversioned_entry] (search_query ''Attention Is All You Need'') 1
              = Inr \<lparr>status_code = 200, feed = Inr [unversioned_entry]\<rparr>"
    by (simp add: stub_arxiv_def)
  have u2: "feed \<lparr>status_code = 200, feed = Inr [unversioned_entry]\<rparr>
              = Inr (unversioned_entry # [])"
    by simp
  have u3: "fst (search_arxiv (stub_arxiv [unversioned_entry]) ''Attention Is All You Need'' 1)
              = Inr (Some unversioned_record)"
    by code_simp
  have u4: "id_elem unversioned_entry = Some (Some ''http://arxiv.org/abs/cs/0112017'')"
    by code_simp
  have ul: "last (split_on CHR ''/'' ''http://arxiv.org/abs/cs/0112017'') = ''0112017''"
    by code_simp
  have "strip_end ''0112017'' = ''0112017''" by code_simp
  then have n1: "\<not> ends_in_version ''0112017''" by (simp add: ends_in_version_strip_end)
  have n2: "\<not> (\<exists>t. ''0112017'' = t @ newline \<and> ends_in_version t)"
  proof
    assume "\<exists>t. ''0112017'' = t @ newline \<and> ends_in_version t"
    then obtain t where "''0112017'' = t @ newline" by blast
    then have "last ''0112017'' = last (t @ newline)" by (rule arg_cong)
    then show False by (simp add: newline_def)
  qed
  from arxiv_id_version_stripped[OF u1 u2 u3 u4, of "[]" "[]", unfolded ul] obtain arxiv_id l1 l2 l3 l5 where
    b: "unversioned_record =
          join newline [l1, l2, l3, ''  journal   = {arXiv preprint arXiv:'' @ arxiv_id @ ''},'',
                        l5, ''}''] @ newline" and
    i: "\<not> ends_in_version ''0112017'' \<and>
        \<not> (\<exists>t. ''0112017'' = t @ newline \<and> ends_in_version t) \<longrightarrow> arxiv_id = ''0112017''"
    by blast
  from i n1 n2 have "arxiv_id = ''0112017''" by blast
  with b have 2: "\<exists>l1 l2 l3 l5.
      unversioned_record =
        join newline [l1, l2, l3, ''  journal   = {arXiv preprint arXiv:'' @ ''0112017'' @ ''},'',
                      l5, ''}''] @ newline"
    by blast
  show ?thesis by (intro conjI) (fact a3 a4 1 u3 u4 n1 2)+
qed

text \<open>C5: \<^verbatim>\<open>search_arxiv\<close> returns \<^verbatim>\<open>None\<close> when the status of the response is not 200, when
  the feed has no entry, and when the title of the first entry fails the similarity check
  against the input title.\<close>

theorem search_arxiv_returns_nothing:
  assumes "service (search_query title) n = Inr resp"
      and "status_code resp \<noteq> 200 \<or>
           feed resp = Inr [] \<or>
           (\<exists>entry rest text. feed resp = Inr (entry # rest) \<and>
              title_elem entry = Some (Some text) \<and>
              \<not> title_similar title (join '' '' (split_ws text)))"
  shows "fst (search_arxiv service title n) = Inr None"
  using assms
  by (auto simp add: search_arxiv_fst search_arxiv_try_def arxiv_entry_bibtex_def Let_def)

theorem search_arxiv_returns_nothing_witness:
  "fst (search_arxiv unavailable_service ''Attention Is All You Need'' 1) = Inr None \<and>
   fst (search_arxiv (stub_arxiv []) ''Attention Is All You Need'' 1) = Inr None \<and>
   \<not> title_similar ''Attention Is Not Enough'' ''Attention is All you Need'' \<and>
   fst (search_arxiv (stub_arxiv [attention_entry]) ''Attention Is Not Enough'' 1) = Inr None"
proof -
  have u: "unavailable_service (search_query ''Attention Is All You Need'') 1
             = Inr \<lparr>status_code = 503, feed = Inl ParseError\<rparr>"
    by (simp add: unavailable_service_def)
  have 1: "fst (search_arxiv unavailable_service ''Attention Is All You Need'' 1) = Inr None"
    using search_arxiv_returns_nothing[of unavailable_service "''Attention Is All You Need''" 1
               "\<lparr>status_code = 503, feed = Inl ParseError\<rparr>"] u by simp
  have e: "stub_arxiv [] (search_query ''Attention Is All You Need'') 1
             = Inr \<lparr>status_code = 200, feed = Inr []\<rparr>"
    by (simp add: stub_arxiv_def)
  have 2: "fst (search_arxiv (stub_arxiv []) ''Attention Is All You Need'' 1) = Inr None"
    using search_arxiv_returns_nothing[of "stub_arxiv []" "''Attention Is All You Need''" 1
               "\<lparr>status_code = 200, feed = Inr []\<rparr>"] e by simp
  have m: "stub_arxiv [attention_entry] (search_query ''Attention Is Not Enough'') 1
             = Inr \<lparr>status_code = 200, feed = Inr [attention_entry]\<rparr>"
    by (simp add: stub_arxiv_def)
  have t: "title_elem attention_entry = Some (Some ''Attention is All you Need'')"
    by (simp add: attention_entry_def)
  have j: "join '' '' (split_ws ''Attention is All you Need'') = ''Attention is All you Need''"
    by code_simp
  have d: "\<not> title_similar ''Attention Is Not Enough'' ''Attention is All you Need''"
    by code_simp
  have "feed \<lparr>status_code = 200, feed = Inr [attention_entry]\<rparr> = Inr (attention_entry # []) \<and>
        title_elem attention_entry = Some (Some ''Attention is All you Need'') \<and>
        \<not> title_similar ''Attention Is Not Enough''
            (join '' '' (split_ws ''Attention is All you Need''))"
    using t d j by simp
  then have h: "status_code \<lparr>status_code = 200, feed = Inr [attention_entry]\<rparr> \<noteq> 200 \<or>
           feed \<lparr>status_code = 200, feed = Inr [attention_entry]\<rparr> = Inr [] \<or>
           (\<exists>entry rest text.
              feed \<lparr>status_code = 200, feed = Inr [attention_entry]\<rparr> = Inr (entry # rest) \<and>
              title_elem entry = Some (Some text) \<and>
              \<not> title_similar ''Attention Is Not Enough'' (join '' '' (split_ws text)))"
    by blast
  have 3: "fst (search_arxiv (stub_arxiv [attention_entry]) ''Attention Is Not Enough'' 1)
             = Inr None"
    using m h by (rule search_arxiv_returns_nothing)
  show ?thesis using 1 2 3 d by blast
qed

text \<open>C10: the record of a successful arXiv search is an \<^verbatim>\<open>@article\<close> whose journal line is
  \<^verbatim>\<open>arXiv preprint arXiv:<identifier>\<close>, and neither the formatter nor the search depends
  on the DOI or the journal reference of the entry: any two values give the same
  output.\<close>

theorem arxiv_record_ignores_doi:
  "format_arxiv_bibtex arxiv_id t authors year doi journal_ref
     = format_arxiv_bibtex arxiv_id t authors year None None \<and>
   arxiv_entry_bibtex title (entry\<lparr>doi_elem := d, journal_ref_elem := j\<rparr>)
     = arxiv_entry_bibtex title entry \<and>
   (service (search_query title) n = Inr resp \<and> feed resp = Inr (entry # rest) \<and>
      fst (search_arxiv service title n) = Inr (Some b) \<longrightarrow>
    starts_with ''@article{'' b \<and>
    (\<exists>ident l1 l2 l3 l5.
       entry_arxiv_id entry = Inr ident \<and>
       b = join newline
             [l1, l2, l3, ''  journal   = {arXiv preprint arXiv:'' @ ident @ ''},'', l5, ''}'']
           @ newline))"
proof -
  have 1: "format_arxiv_bibtex arxiv_id t authors year doi journal_ref
     = format_arxiv_bibtex arxiv_id t authors year None None"
    by (simp add: format_arxiv_bibtex_def)
  have 2: "arxiv_entry_bibtex title (entry\<lparr>doi_elem := d, journal_ref_elem := j\<rparr>)
     = arxiv_entry_bibtex title entry"
    by (simp add: arxiv_entry_bibtex_def entry_year_def entry_arxiv_id_def
          format_arxiv_bibtex_def Let_def
          cong: option.case_cong sum.case_cong if_cong)
  have 3: "starts_with ''@article{'' b \<and>
    (\<exists>ident l1 l2 l3 l5.
       entry_arxiv_id entry = Inr ident \<and>
       b = join newline
             [l1, l2, l3, ''  journal   = {arXiv preprint arXiv:'' @ ident @ ''},'', l5, ''}'']
           @ newline)"
    if a: "service (search_query title) n = Inr resp \<and> feed resp = Inr (entry # rest) \<and>
      fst (search_arxiv service title n) = Inr (Some b)"
  proof -
    from a have "arxiv_entry_bibtex title entry = Inr (Some b)"
      using search_arxiv_entry by blast
    from arxiv_entry_bibtex_Some[OF this] obtain ttl year arxiv_id where
      i: "entry_arxiv_id entry = Inr arxiv_id" and
      f: "format_arxiv_bibtex arxiv_id (join '' '' (split_ws ttl)) (author_names entry) year
               (entry_doi entry) (entry_journal_ref entry) = Inr b" by blast
    from format_arxiv_bibtex_Inr[OF f] obtain l1 l2 l3 l5 where
      b: "b = join newline
                [''@article{'' @ l1, l2, l3,
                 ''  journal   = {arXiv preprint arXiv:'' @ arxiv_id @ ''},'', l5, ''}'']
              @ newline"
      by blast
    have "starts_with ''@article{'' b" unfolding b by (simp add: starts_with_def)
    then show ?thesis using i b by blast
  qed
  show ?thesis using 1 2 3 by blast
qed

theorem arxiv_record_ignores_doi_witness:
  "doi_elem attention_entry = Some (Some ''10.5555/3295222.3295349'') \<and>
   journal_ref_elem attention_entry = Some (Some ''NIPS 2017'') \<and>
   arxiv_entry_bibtex ''Attention Is All You Need'' attention_entry = Inr (Some attention_record) \<and>
   arxiv_entry_bibtex ''Attention Is All You Need''
     (attention_entry\<lparr>doi_elem := None, journal_ref_elem := None\<rparr>) = Inr (Some attention_record) \<and>
   starts_with ''@article{'' attention_record"
proof -
  have a1: "stub_arxiv [attention_entry] (search_query ''Attention Is All You Need'') 1
              = Inr \<lparr>status_code = 200, feed = Inr [attention_entry]\<rparr>"
    by (simp add: stub_arxiv_def)
  have a2: "feed \<lparr>status_code = 200, feed = Inr [attention_entry]\<rparr> = Inr (attention_entry # [])"
    by simp
  have a3: "fst (search_arxiv (stub_arxiv [attention_entry]) ''Attention Is All You Need'' 1)
              = Inr (Some attention_record)"
    unfolding attention_search by simp
  have d: "doi_elem attention_entry = Some (Some ''10.5555/3295222.3295349'')"
    and j: "journal_ref_elem attention_entry = Some (Some ''NIPS 2017'')"
    by (simp_all add: attention_entry_def)
  have e: "arxiv_entry_bibtex ''Attention Is All You Need'' attention_entry
             = Inr (Some attention_record)"
    using a1 a2 a3 by (rule search_arxiv_entry)
  note c = arxiv_record_ignores_doi[where title = "''Attention Is All You Need''" and entry = attention_entry
                 and d = None and j = None and service = "stub_arxiv [attention_entry]"
                 and n = 1 and resp = "\<lparr>status_code = 200, feed = Inr [attention_entry]\<rparr>"
                 and rest = "[]" and b = attention_record]
  have 1: "arxiv_entry_bibtex ''Attention Is All You Need''
     (attention_entry\<lparr>doi_elem := None, journal_ref_elem := None\<rparr>) = Inr (Some attention_record)"
    using c e by simp
  have 2: "starts_with ''@article{'' attention_record"
    using c a1 a2 a3 by blast
  show ?thesis using d j e 1 2 by blast
qed

subsection \<open>The Google Scholar search\<close>



subsection \<open>Exceptions\<close>








subsection \<open>The citation key\<close>

text \<open>C9, as the code has it. The record of a successful search opens with the key
  \<^verbatim>\<open>arxiv:<Surname><Year>\<close> or \<^verbatim>\<open>scholar:<Surname><Year>\<close>, where the surname is the last
  word of the first author, or the placeholder \<^verbatim>\<open>Unknown\<close> when the author list is empty.
  The year is the first four characters of the publication date of the entry, and the
  \<^verbatim>\<open>pub_year\<close> of the scholarly result.\<close>

theorem cite_key_form:
  "(service (search_query title) n = Inr resp \<and> feed resp = Inr (entry # rest) \<and>
      fst (search_arxiv service title n) = Inr (Some b) \<longrightarrow>
    (\<exists>year. entry_year entry = Inr year \<and>
       has_key (''arxiv:'' @ key_surname (map the (author_names entry)) @ year) b)) \<and>
   (lib title' = Inr (Inr (Some result)) \<and>
      fst (search_google_scholar (Inr lib) title') = Inr (Some b') \<longrightarrow>
    has_key (''scholar:'' @ key_surname (scholar_authors (get_default (pub_bib result) empty_bib))
               @ get_default (bib_pub_year (get_default (pub_bib result) empty_bib)) '''') b')"
proof (intro conjI impI)
  assume a: "service (search_query title) n = Inr resp \<and> feed resp = Inr (entry # rest) \<and>
      fst (search_arxiv service title n) = Inr (Some b)"
  then have "arxiv_entry_bibtex title entry = Inr (Some b)"
    using search_arxiv_entry by blast
  from arxiv_entry_bibtex_Some[OF this] obtain ttl year arxiv_id where
    y: "entry_year entry = Inr year" and
    f: "format_arxiv_bibtex arxiv_id (join '' '' (split_ws ttl)) (author_names entry) year
             (entry_doi entry) (entry_journal_ref entry) = Inr b" by blast
  from format_arxiv_bibtex_Inr[OF f] obtain lastname where
    l: "first_author_lastname (author_names entry) = Inr lastname" and
    n: "\<not> list_ex (\<lambda>a. a = None) (author_names entry)" and
    b: "b = join newline
                 [''@article{'' @ (''arxiv:'' @ lastname @ year) @ '','',
                  ''  author    = {'' @ join author_separator (map the (author_names entry)) @ ''},'',
                  ''  title     = {{'' @ join '' '' (split_ws ttl) @ ''}},'',
                  ''  journal   = {arXiv preprint arXiv:'' @ arxiv_id @ ''},'',
                  ''  year      = {'' @ year @ ''}'',
                  ''}''] @ newline" by blast
  have s: "lastname = key_surname (map the (author_names entry))"
    using l n by (rule first_author_lastname_surname)
  have "has_key (''arxiv:'' @ lastname @ year) b"
    unfolding b using has_key_article[of "''arxiv:'' @ lastname @ year"] by simp
  then show "\<exists>year. entry_year entry = Inr year \<and>
       has_key (''arxiv:'' @ key_surname (map the (author_names entry)) @ year) b"
    using y s by blast
next
  let ?bib = "get_default (pub_bib result) empty_bib"
  assume a: "lib title' = Inr (Inr (Some result)) \<and>
      fst (search_google_scholar (Inr lib) title') = Inr (Some b')"
  then have "scholar_result_bibtex title' result = Inr (Some b')"
    using search_google_scholar_Some by blast
  from scholar_result_bibtex_Some[OF this] obtain ls where
    ls: "scholar_bibtex_lines result = Inr ls" and b: "b' = join newline ls @ newline" by blast
  from scholar_bibtex_lines_Inr[OF ls] obtain lastname l2 l3 l4 more where
    l: "first_author_lastname (map Some (scholar_authors ?bib)) = Inr lastname" and
    shape: "ls = [''@'' @ scholar_pub_type (scholar_venue ?bib) @ ''{''
                   @ (''scholar:'' @ lastname @ get_default (bib_pub_year ?bib) '''') @ '','',
                  l2, l3, l4] @ more"
    by blast
  have s: "lastname = key_surname (scholar_authors ?bib)"
    using l by (rule first_author_lastname_Some)
  have "has_key (''scholar:'' @ lastname @ get_default (bib_pub_year ?bib) '''') b'"
  proof (cases "conference_venue (scholar_venue ?bib)")
    case True
    then show ?thesis unfolding b shape scholar_pub_type_conference
      using has_key_inproceedings[of "''scholar:'' @ lastname @ get_default (bib_pub_year ?bib) ''''"]
      by simp
  next
    case False
    then show ?thesis unfolding b shape scholar_pub_type_conference
      using has_key_article[of "''scholar:'' @ lastname @ get_default (bib_pub_year ?bib) ''''"]
      by simp
  qed
  then show "has_key (''scholar:'' @ key_surname (scholar_authors ?bib)
               @ get_default (bib_pub_year ?bib) '''') b'"
    using s by simp
qed

text \<open>C9 as worded takes the surname from the first author for every successful search.
  An entry without author elements is found all the same, and its key is
  \<^verbatim>\<open>arxiv:Unknown2017\<close>.\<close>

theorem cite_key_unknown_counterexample:
  "fst (search_arxiv (stub_arxiv [anonymous_entry]) ''Attention Is All You Need'' 1)
     = Inr (Some anonymous_record) \<and>
   has_key ''arxiv:Unknown2017'' anonymous_record \<and>
   \<not> spec_key_claim ''arxiv'' (map the (author_names anonymous_entry)) ''2017'' anonymous_record"
  by code_simp

theorem cite_key_form_witness:
  "fst (search_arxiv (stub_arxiv [attention_entry]) ''Attention Is All You Need'' 1)
     = Inr (Some attention_record) \<and>
   has_key ''arxiv:Vaswani2017'' attention_record \<and>
   fst (search_google_scholar (Inr (stub_scholarly icml_result)) ''deep learning of things'')
     = Inr (Some icml_record) \<and>
   has_key ''scholar:Lovelace2019'' icml_record"
proof -
  have a1: "stub_arxiv [attention_entry] (search_query ''Attention Is All You Need'') 1
              = Inr \<lparr>status_code = 200, feed = Inr [attention_entry]\<rparr>"
    by (simp add: stub_arxiv_def)
  have a2: "feed \<lparr>status_code = 200, feed = Inr [attention_entry]\<rparr> = Inr (attention_entry # [])"
    by simp
  have a3: "fst (search_arxiv (stub_arxiv [attention_entry]) ''Attention Is All You Need'' 1)
              = Inr (Some attention_record)"
    unfolding attention_search by simp
  have a4: "entry_year attention_entry = Inr ''2017''" by code_simp
  have a5: "key_surname (map the (author_names attention_entry)) = ''Vaswani''" by code_simp
  have s1: "stub_scholarly icml_result ''deep learning of things'' = Inr (Inr (Some icml_result))"
    by (simp add: stub_scholarly_def)
  have s2: "fst (search_google_scholar (Inr (stub_scholarly icml_result)) ''deep learning of things'')
              = Inr (Some icml_record)"
    unfolding icml_search by simp
  have s3: "key_surname (scholar_authors (get_default (pub_bib icml_result) empty_bib)) = ''Lovelace''"
    by code_simp
  have s4: "get_default (bib_pub_year (get_default (pub_bib icml_result) empty_bib)) '''' = ''2019''"
    by code_simp
  from cite_key_form[of "stub_arxiv [attention_entry]" "''Attention Is All You Need''" 1
             "\<lparr>status_code = 200, feed = Inr [attention_entry]\<rparr>" attention_entry "[]"
             attention_record "stub_scholarly icml_result" "''deep learning of things''"
             icml_result icml_record]
  have k1: "has_key (''arxiv:'' @ ''Vaswani'' @ ''2017'') attention_record"
   and k2: "has_key (''scholar:'' @ ''Lovelace'' @ ''2019'') icml_record"
    using a1 a2 a3 a4 s1 s2 unfolding a5 s3 s4 by auto
  show ?thesis using a3 s2 k1 k2 by simp
qed

subsection \<open>The orchestrator\<close>

text \<open>C1: when \<^verbatim>\<open>search_arxiv\<close> returns a record, \<^verbatim>\<open>fallback_search\<close> with the arXiv search
  enabled returns that record, whatever the second flag; its effects are the first
  progress line, those of \<^verbatim>\<open>search_arxiv\<close> and the second progress line, so it neither
  calls \<^verbatim>\<open>search_google_scholar\<close> nor sleeps.\<close>

theorem fallback_search_arxiv_first:
  assumes "fst (search_arxiv (arxiv world) title 1) = Inr (Some b)"
  shows "fst (fallback_search world title True use_scholar) = Inr (Some b) \<and>
         snd (fallback_search world title True use_scholar) =
           [Print TryingArxiv] @ snd (search_arxiv (arxiv world) title 1) @ [Print ArxivFound] \<and>
         \<not> list_ex scholar_event (snd (fallback_search world title True use_scholar)) \<and>
         ImportScholarly \<notin> set (snd (fallback_search world title True use_scholar)) \<and>
         Sleep 1 \<notin> set (snd (fallback_search world title True use_scholar))"
proof -
  have s: "search_arxiv (arxiv world) title 1 = (Inr (Some b), [HttpGet (search_query title) 1])"
    using assms by (rule search_arxiv_snd_Some)
  have t: "truthy (Some b)" using assms by (rule search_arxiv_truthy)
  have f: "fallback_search world title True use_scholar =
             (Inr (Some b), [Print TryingArxiv, HttpGet (search_query title) 1, Print ArxivFound])"
    using s t by (simp add: fallback_search_def)
  show ?thesis unfolding f s by simp
qed

theorem fallback_search_arxiv_first_witness:
  "fst (search_arxiv (arxiv attention_world) ''Attention Is All You Need'' 1)
     = Inr (Some attention_record) \<and>
   fallback_search attention_world ''Attention Is All You Need'' True True
     = (Inr (Some attention_record),
        [Print TryingArxiv, HttpGet (search_query ''Attention Is All You Need'') 1,
         Print ArxivFound])"
proof -
  have a: "fst (search_arxiv (arxiv attention_world) ''Attention Is All You Need'' 1)
     = Inr (Some attention_record)" unfolding attention_world_def by (simp add: attention_search [simplified])
  have s: "snd (search_arxiv (arxiv attention_world) ''Attention Is All You Need'' 1)
     = [HttpGet (search_query ''Attention Is All You Need'') 1]"
    using search_arxiv_snd_Some[OF a] by simp
  from fallback_search_arxiv_first[OF a, of True] show ?thesis using a unfolding s by (simp add: prod_eq_iff)
qed

text \<open>C8: with both flags off \<^verbatim>\<open>fallback_search\<close> returns \<^verbatim>\<open>None\<close> and has no effect at all,
  so it calls neither search and reaches no service.\<close>

theorem fallback_search_both_disabled:
  "fallback_search world title False False = (Inr None, []) \<and>
   \<not> list_ex network_event (snd (fallback_search world title False False))"
  by (simp add: fallback_search_def)

theorem fallback_search_both_disabled_witness:
  "fallback_search attention_world ''Attention Is All You Need'' False False = (Inr None, [])"
  using fallback_search_both_disabled[of attention_world "''Attention Is All You Need''"] by simp

end
